theory Spec2Isabelle
  imports Main "HOL-Library.Sublist"
begin

section \<open>Python strings\<close>

text \<open>
  A Python \<^verbatim>\<open>str\<close> is a sequence of code points. The model is \<^typ>\<open>string\<close>, each
  \<^typ>\<open>char\<close> standing for the code point of the same number, so the strings covered are
  those over the code points 0 to 255. On that range the functions below are what
  CPython's \<^verbatim>\<open>str.lower\<close>, \<^verbatim>\<open>str.isspace\<close>, \<^verbatim>\<open>str.strip\<close>, \<^verbatim>\<open>str.replace\<close> and the
  operator \<^verbatim>\<open>in\<close> compute.
\<close>

text \<open>
  \<^verbatim>\<open>c.lower()\<close> for one code point below 256: the upper-case letters are A to Z
  (65 to 90) and the Latin-1 capitals 192 to 222 without the multiplication sign 215;
  each has its lower-case form 32 places further on.
\<close>

definition lower_char :: "char \<Rightarrow> char" where
  "lower_char c =
     (let n = (of_char c :: nat)
      in if (65 \<le> n \<and> n \<le> 90) \<or> (192 \<le> n \<and> n \<le> 222 \<and> n \<noteq> 215)
         then char_of (n + 32) else c)"

definition lower :: "string \<Rightarrow> string" where
  "lower s = map lower_char s"

text \<open>
  \<^verbatim>\<open>c.isspace()\<close> for one code point below 256: tab, line feed, vertical tab, form
  feed, carriage return (9 to 13), the separators 28 to 31, the space 32, next line 133
  and the no-break space 160.
\<close>

definition isspace_char :: "char \<Rightarrow> bool" where
  "isspace_char c =
     (let n = (of_char c :: nat)
      in (9 \<le> n \<and> n \<le> 13) \<or> (28 \<le> n \<and> n \<le> 32) \<or> n = 133 \<or> n = 160)"

text \<open>\<^verbatim>\<open>s.strip()\<close>: leading and trailing whitespace removed.\<close>

definition strip :: "string \<Rightarrow> string" where
  "strip s = rev (dropWhile isspace_char (rev (dropWhile isspace_char s)))"

text \<open>\<^verbatim>\<open>s.replace(old, new)\<close> for a pattern \<open>old\<close> of one character.\<close>

definition replace_char :: "char \<Rightarrow> string \<Rightarrow> string \<Rightarrow> string" where
  "replace_char old new s = concat (map (\<lambda>c. if c = old then new else [c]) s)"

text \<open>\<^verbatim>\<open>sub in s\<close>: \<open>sub\<close> occurs in \<open>s\<close> as a contiguous run, tried at each position.\<close>

fun py_in :: "string \<Rightarrow> string \<Rightarrow> bool" where
  "py_in sub [] = (sub = [])"
| "py_in sub (c # cs) = (prefix sub (c # cs) \<or> py_in sub cs)"

text \<open>\<^verbatim>\<open>s[-2:]\<close>: the last two characters, the whole string when it is shorter.\<close>

definition last_two :: "string \<Rightarrow> string" where
  "last_two s = drop (length s - 2) s"

text \<open>
  Errors are values. \<^verbatim>\<open>s[0]\<close> raises \<^verbatim>\<open>IndexError\<close> on the empty string and is the
  one-character string of the first code point otherwise.
\<close>

datatype py_error = IndexError | ValueError | OtherError string

text \<open>
  \<open>ValueError\<close> is raised by \<^verbatim>\<open>str\<close> on an integer of too many digits; \<open>OtherError\<close>
  stands for an exception of any other class, by the name of the class.
\<close>

definition getitem0 :: "string \<Rightarrow> py_error + string" where
  "getitem0 s = (case s of [] \<Rightarrow> Inl IndexError | c # _ \<Rightarrow> Inr [c])"

subsection \<open>Integers and other values as strings\<close>

definition digit_char :: "nat \<Rightarrow> char" where
  "digit_char d = char_of (48 + d)"

fun str_nat :: "nat \<Rightarrow> string" where
  "str_nat n = (if n < 10 then [digit_char n] else str_nat (n div 10) @ [digit_char (n mod 10)])"

declare str_nat.simps [simp del]

text \<open>
  CPython (3.11 and later) limits the conversion between \<^verbatim>\<open>int\<close> and \<^verbatim>\<open>str\<close>: the
  default of \<^verbatim>\<open>sys.int_max_str_digits\<close> is 4300 digits, the sign not counted.
\<close>

definition int_max_str_digits :: nat where
  "int_max_str_digits = 4300"

text \<open>
  \<^verbatim>\<open>str(i)\<close> for a Python \<^verbatim>\<open>int\<close>: decimal, with a minus sign when negative;
  \<^verbatim>\<open>ValueError\<close> when the number has more digits than the limit.
\<close>

definition str_int :: "int \<Rightarrow> py_error + string" where
  "str_int i =
     (let digits = str_nat (nat \<bar>i\<bar>)
      in if int_max_str_digits < length digits then Inl ValueError
         else Inr (if i < 0 then CHR ''-'' # digits else digits))"

text \<open>
  The values a programme cell of the roster can hold: a string, \<^verbatim>\<open>None\<close>, the
  missing-value float \<^verbatim>\<open>nan\<close>, an integer, a boolean, or any other object (another
  float, a timestamp). The classifier reads the value through \<^verbatim>\<open>str(x)\<close> only, so
  another object is given by what \<^verbatim>\<open>str\<close> does on it: the string it returns or the
  exception it raises. \<open>py_str\<close> is \<^verbatim>\<open>str(x)\<close>.
\<close>

datatype py_value =
  PyStr string | PyNone | PyNaN | PyInt int | PyBool bool | PyObject "py_error + string"

fun py_str :: "py_value \<Rightarrow> py_error + string" where
  "py_str (PyStr s) = Inr s"
| "py_str PyNone = Inr ''None''"
| "py_str PyNaN = Inr ''nan''"
| "py_str (PyInt i) = str_int i"
| "py_str (PyBool b) = Inr (if b then ''True'' else ''False'')"
| "py_str (PyObject outcome) = outcome"

section \<open>Email generation\<close>

text \<open>
  \<^verbatim>\<open>generate_email(first, middle, last, dept, year, student_type)\<close>. The middle name
  is optional: \<open>None\<close> is a value for which \<^verbatim>\<open>pd.notna(middle)\<close> is false. The statements
  run in the source's order, so an empty first name raises before anything else is read,
  and \<^verbatim>\<open>str(year)\<close> is evaluated for a sandwich student only.
  The source's names \<^verbatim>\<open>last\<close> and \<^verbatim>\<open>suffix\<close> are written \<open>last'\<close> and \<open>suffix'\<close>, as
  \<open>last\<close> and \<open>suffix\<close> are constants of HOL.
\<close>

definition generate_email ::
  "string \<Rightarrow> string option \<Rightarrow> string \<Rightarrow> string \<Rightarrow> int \<Rightarrow> string \<Rightarrow> py_error + string" where
  "generate_email first middle last' dept year student_type =
     (case getitem0 first of
        Inl e \<Rightarrow> Inl e
      | Inr f0 \<Rightarrow>
          (let first_letter = lower f0 in
           (case (case middle of
                    None \<Rightarrow> Inr []
                  | Some m \<Rightarrow>
                      if strip m \<noteq> []
                      then (case getitem0 m of Inl e \<Rightarrow> Inl e | Inr m0 \<Rightarrow> Inr (lower m0))
                      else Inr []) of
              Inl e \<Rightarrow> Inl e
            | Inr middle_letter \<Rightarrow>
                (let lastname = replace_char CHR '' '' [] (lower last') in
                 (case (if lower student_type = ''sandwich''
                        then (case str_int year of
                                Inl e \<Rightarrow> Inl e
                              | Inr digits \<Rightarrow> Inr (last_two digits @ ''sw''))
                        else Inr []) of
                    Inl e \<Rightarrow> Inl e
                  | Inr suffix' \<Rightarrow>
                      (let email = first_letter @ middle_letter @ lastname @ suffix' @ ''@''
                                   @ lower dept @ ''.uhas.edu.gh''
                       in Inr email))))))"

section \<open>Detecting the school from the programme\<close>

text \<open>
  The mapping is a Python \<^verbatim>\<open>dict\<close> from school codes to keyword lists. Its iteration
  order is the insertion order, so it is an association list in that order.
\<close>

type_synonym school_mapping = "(string \<times> string list) list"

text \<open>
  \<^verbatim>\<open>any(prog.lower() in str(programme).lower() for prog in progs)\<close>, keywords tried in
  list order. \<^verbatim>\<open>str(programme)\<close> is evaluated once for each keyword tried, so it raises
  only where there is a keyword to try.
\<close>

fun any_prog_in :: "string list \<Rightarrow> py_value \<Rightarrow> py_error + bool" where
  "any_prog_in [] programme = Inr False"
| "any_prog_in (prog # progs) programme =
     (case py_str programme of
        Inl e \<Rightarrow> Inl e
      | Inr s \<Rightarrow>
          if py_in (lower prog) (lower s) then Inr True else any_prog_in progs programme)"

fun get_school_from_programme :: "py_value \<Rightarrow> school_mapping \<Rightarrow> py_error + string" where
  "get_school_from_programme programme [] = Inr ''unknown''"
| "get_school_from_programme programme ((school, progs) # rest) =
     (case any_prog_in progs programme of
        Inl e \<Rightarrow> Inl e
      | Inr found \<Rightarrow>
          if found then Inr school else get_school_from_programme programme rest)"


text \<open>The mapping a session starts with.\<close>

definition school_mapping_default :: school_mapping where
  "school_mapping_default =
     [(''sonam'', [''Nursing'', ''Midwifery'', ''Public Health Nursing'', ''Master of Philosophy'']),
      (''sph'', [''Public Health'', ''Health Promotion'', ''Disease Control'',
                 ''Environmental Health'', ''Nutrition'']),
      (''sahs'', [''Dietetics'', ''Medical Laboratory Sciences'', ''Orthotics and Prosthetics'',
                  ''Physiotherapy''])]"

section \<open>The session state and its handlers\<close>

text \<open>
  \<^verbatim>\<open>st.session_state\<close> holds the mapping. A handler takes the state and returns the
  state it leaves, with the message it shows in the sidebar, if any.
\<close>

record session_state =
  school_mapping :: "(string \<times> string list) list"

datatype sidebar_msg = Success string | Warning string

text \<open>
  The body of the \<^verbatim>\<open>Add New School\<close> button: nothing happens unless both text inputs
  are non-empty; a code that is no key of the mapping yet is stored with its one
  programme, as the last key of the dictionary.
\<close>

definition add_new_school :: "string \<Rightarrow> string \<Rightarrow> session_state \<Rightarrow> sidebar_msg option \<times> session_state" where
  "add_new_school new_school new_school_prog st =
     (if new_school \<noteq> [] \<and> new_school_prog \<noteq> [] then
        if new_school \<notin> set (map fst (school_mapping st)) then
          (Some (Success (''Added new school '' @ [CHR 0x27] @ new_school @ [CHR 0x27]
                          @ '' with programme '' @ [CHR 0x27] @ new_school_prog @ [CHR 0x27])),
           st\<lparr>school_mapping := school_mapping st @ [(new_school, [new_school_prog])]\<rparr>)
        else (Some (Warning ''School already exists.''), st)
      else (None, st))"

section \<open>The specification's wording\<close>

text \<open>
  The last two digits of a year: its tens digit and its units digit.
\<close>

definition last_two_digits :: "int \<Rightarrow> string" where
  "last_two_digits year =
     [digit_char (nat \<bar>year\<bar> div 10 mod 10), digit_char (nat \<bar>year\<bar> mod 10)]"

text \<open>
  The email format as the specification words it, to be compared with \<open>generate_email\<close>:
  the middle initial is taken whenever the middle name is present and non-empty, the
  suffix is the last two digits of the admission year followed by \<^verbatim>\<open>sw\<close>, and the
  student type is compared with \<^verbatim>\<open>Sandwich\<close> without regard to case.
\<close>

definition email_format_spec ::
  "string \<Rightarrow> string option \<Rightarrow> string \<Rightarrow> string \<Rightarrow> int \<Rightarrow> string \<Rightarrow> string" where
  "email_format_spec firstName middleName lastName department admissionYear studentType =
     (let f = [lower_char (hd firstName)];
          m = (case middleName of
                 None \<Rightarrow> []
               | Some mn \<Rightarrow> if mn \<noteq> [] then [lower_char (hd mn)] else []);
          lastname = filter (\<lambda>c. c \<noteq> CHR '' '') (lower lastName);
          suffix = (if lower studentType = lower ''Sandwich''
                    then last_two_digits admissionYear @ ''sw'' else [])
      in f @ m @ lastname @ suffix @ ''@'' @ lower department @ ''.uhas.edu.gh'')"

text \<open>
  A keyword is a case-insensitive substring of a programme when its lower-case form is a
  contiguous sublist of the programme's lower-case form; a department matches when one
  of its keywords is.
\<close>

definition keyword_matches :: "string \<Rightarrow> string \<Rightarrow> bool" where
  "keyword_matches keyword programme \<longleftrightarrow> sublist (lower keyword) (lower programme)"

definition department_matches :: "string list \<Rightarrow> string \<Rightarrow> bool" where
  "department_matches keywords programme \<longleftrightarrow> (\<exists>k\<in>set keywords. keyword_matches k programme)"

text \<open>
  The same notion without the lower-case forms. Two characters are the same up to case
  when they are equal or one is a capital letter and the other its small letter, 32
  places further on. A keyword occurs in a programme up to case when some contiguous
  run of the programme has the keyword's length and agrees with it, character by
  character, up to case.
\<close>

definition capital_of :: "char \<Rightarrow> char \<Rightarrow> bool" where
  "capital_of C c \<longleftrightarrow>
     (let n = (of_char C :: nat)
      in ((65 \<le> n \<and> n \<le> 90) \<or> (192 \<le> n \<and> n \<le> 222 \<and> n \<noteq> 215))
         \<and> (of_char c :: nat) = n + 32)"

definition same_up_to_case :: "char \<Rightarrow> char \<Rightarrow> bool" where
  "same_up_to_case c d \<longleftrightarrow> c = d \<or> capital_of c d \<or> capital_of d c"

definition occurs_up_to_case :: "string \<Rightarrow> string \<Rightarrow> bool" where
  "occurs_up_to_case keyword programme \<longleftrightarrow>
     (\<exists>run. sublist run programme \<and> list_all2 same_up_to_case keyword run)"

definition department_has_keyword :: "string list \<Rightarrow> string \<Rightarrow> bool" where
  "department_has_keyword keywords programme \<longleftrightarrow>
     (\<exists>k\<in>set keywords. occurs_up_to_case k programme)"

section \<open>Facts about the string functions\<close>

lemma of_char_lt256: "(of_char c :: nat) < 256"
  by (metis of_char_mod_256 mod_less_divisor zero_less_numeral)

lemma lower_char_idem: "lower_char (lower_char c) = lower_char c"
  using of_char_lt256 [of c]
  by (auto simp add: lower_char_def Let_def)

lemma lower_Nil: "lower [] = []"
  by (simp add: lower_def)

lemma lower_idem: "lower (lower s) = lower s"
  by (simp add: lower_def lower_char_idem)

lemma lower_append: "lower (a @ b) = lower a @ lower b"
  by (simp add: lower_def)

lemma lower_singleton: "lower [lower_char c] = [lower_char c]"
  by (simp add: lower_def lower_char_idem)

lemma lower_filter_lower: "lower (filter P (lower s)) = filter P (lower s)"
  by (induction s) (simp_all add: lower_def lower_char_idem)

lemma lower_literals:
  "lower ''sw'' = ''sw''" "lower ''@'' = ''@''" "lower ''.uhas.edu.gh'' = ''.uhas.edu.gh''"
  by code_simp+

lemma lower_sandwich: "lower ''Sandwich'' = ''sandwich''"
  by code_simp

lemma lower_regular: "lower ''Regular'' = ''regular''"
  by code_simp

lemma dropWhile_nonempty_iff: "dropWhile P xs \<noteq> [] \<longleftrightarrow> (\<exists>x\<in>set xs. \<not> P x)"
  by (induction xs) auto

text \<open>The stripped string is non-empty exactly when some character is not whitespace.\<close>

lemma strip_nonempty_iff: "strip s \<noteq> [] \<longleftrightarrow> (\<exists>c\<in>set s. \<not> isspace_char c)"
proof -
  have "strip s \<noteq> [] \<longleftrightarrow> (\<exists>c\<in>set (dropWhile isspace_char s). \<not> isspace_char c)"
    by (simp add: strip_def dropWhile_nonempty_iff)
  also have "\<dots> \<longleftrightarrow> (\<exists>c\<in>set s. \<not> isspace_char c)"
    by (induction s) auto
  finally show ?thesis .
qed

text \<open>Replacing a character by the empty string removes every occurrence of it.\<close>

lemma replace_char_empty: "replace_char c [] s = filter (\<lambda>x. x \<noteq> c) s"
  by (induction s) (simp_all add: replace_char_def)

text \<open>The scan \<open>py_in\<close> decides the contiguous-sublist relation of the library.\<close>

lemma py_in_sublist: "py_in sub s \<longleftrightarrow> sublist sub s"
  by (induction s) (auto simp: sublist_Cons_right)

lemma getitem0_Cons: "s \<noteq> [] \<Longrightarrow> getitem0 s = Inr [hd s]"
  by (cases s) (simp_all add: getitem0_def)

lemma getitem0_Nil: "getitem0 [] = Inl IndexError"
  by (simp add: getitem0_def)

subsection \<open>Letters up to case\<close>

lemma of_char_lower_char:
  "(of_char (lower_char c) :: nat) =
     (let n = of_char c
      in if (65 \<le> n \<and> n \<le> 90) \<or> (192 \<le> n \<and> n \<le> 222 \<and> n \<noteq> 215) then n + 32 else n)"
  by (auto simp add: lower_char_def Let_def)

lemma shifted_codes_eq_iff:
  fixes n m :: nat
  defines "cap \<equiv> \<lambda>k::nat. (65 \<le> k \<and> k \<le> 90) \<or> (192 \<le> k \<and> k \<le> 222 \<and> k \<noteq> 215)"
  shows "(if cap n then n + 32 else n) = (if cap m then m + 32 else m)
           \<longleftrightarrow> n = m \<or> (cap n \<and> m = n + 32) \<or> (cap m \<and> n = m + 32)"
  unfolding cap_def by (cases "n \<le> m") auto

lemma lower_char_eq_iff: "lower_char c = lower_char d \<longleftrightarrow> same_up_to_case c d"
proof -
  have "lower_char c = lower_char d
          \<longleftrightarrow> (of_char (lower_char c) :: nat) = of_char (lower_char d)"
    by simp
  moreover have "c = d \<longleftrightarrow> (of_char c :: nat) = of_char d"
    by simp
  ultimately show ?thesis
    unfolding of_char_lower_char same_up_to_case_def capital_of_def Let_def
    using shifted_codes_eq_iff [of "of_char c" "of_char d"] by (simp only:)
qed

lemma lower_eq_iff: "lower a = lower b \<longleftrightarrow> list_all2 same_up_to_case a b"
proof (induction a arbitrary: b)
  case Nil
  then show ?case by (simp add: lower_def)
next
  case (Cons x xs)
  then show ?case
    by (cases b) (auto simp add: lower_def lower_char_eq_iff)
qed

lemma sublist_lower: "sublist run s \<Longrightarrow> sublist (lower run) (lower s)"
  unfolding sublist_def lower_def by (metis map_append)

lemma sublist_lower_run:
  assumes "sublist x (lower s)"
  shows "\<exists>run. sublist run s \<and> lower run = x"
proof -
  from assms obtain ps ss where "map lower_char s = ps @ x @ ss"
    by (auto simp add: sublist_def lower_def)
  then obtain s1 rest where s: "s = s1 @ rest" and "map lower_char rest = x @ ss"
    by (metis map_eq_append_conv)
  then obtain s2 s3 where rest: "rest = s2 @ s3" and "map lower_char s2 = x"
    by (metis map_eq_append_conv)
  with s show ?thesis
    unfolding sublist_def lower_def by blast
qed

text \<open>The two wordings of the case-insensitive substring agree.\<close>

lemma occurs_up_to_case_iff: "occurs_up_to_case keyword programme \<longleftrightarrow> keyword_matches keyword programme"
proof
  assume "occurs_up_to_case keyword programme"
  then obtain run where "sublist run programme" and "lower keyword = lower run"
    by (auto simp add: occurs_up_to_case_def lower_eq_iff)
  then show "keyword_matches keyword programme"
    by (simp add: keyword_matches_def sublist_lower)
next
  assume "keyword_matches keyword programme"
  then obtain run where "sublist run programme" and "lower run = lower keyword"
    using sublist_lower_run [of "lower keyword" programme] by (auto simp add: keyword_matches_def)
  then show "occurs_up_to_case keyword programme"
    unfolding occurs_up_to_case_def lower_eq_iff [symmetric] by metis
qed

lemma department_has_keyword_iff:
  "department_has_keyword keywords programme \<longleftrightarrow> department_matches keywords programme"
  by (simp add: department_has_keyword_def department_matches_def occurs_up_to_case_iff)

subsection \<open>Decimal strings\<close>

lemma lower_digit_char: "d < 10 \<Longrightarrow> lower_char (digit_char d) = digit_char d"
  by (simp add: lower_char_def digit_char_def Let_def)

lemma lower_str_nat: "lower (str_nat n) = str_nat n"
proof (induction n rule: str_nat.induct)
  case (1 n)
  show ?case
  proof (cases "n < 10")
    case True
    then show ?thesis
      by (subst (1 2) str_nat.simps) (simp add: lower_def lower_digit_char)
  next
    case False
    with 1 show ?thesis
      by (subst (1 2) str_nat.simps) (simp add: lower_def lower_digit_char)
  qed
qed

lemma lower_str_int: "str_int i = Inr s \<Longrightarrow> lower s = s"
  using lower_str_nat [of "nat \<bar>i\<bar>"]
  by (auto simp add: str_int_def Let_def lower_def lower_char_def split: if_splits)

lemma lower_last_two: "lower s = s \<Longrightarrow> lower (last_two s) = last_two s"
  by (metis drop_map lower_def last_two_def)

lemma str_nat_nonempty: "str_nat n \<noteq> []"
  by (subst str_nat.simps) simp

lemma last_str_nat: "last (str_nat n) = digit_char (n mod 10)"
  by (subst str_nat.simps) simp

lemma last_two_snoc: "xs \<noteq> [] \<Longrightarrow> last_two (xs @ [a]) = [last xs, a]"
  by (cases xs rule: rev_cases) (simp_all add: last_two_def)

lemma last_two_str_nat:
  "10 \<le> n \<Longrightarrow> last_two (str_nat n) = [digit_char (n div 10 mod 10), digit_char (n mod 10)]"
  by (subst str_nat.simps) (simp add: last_two_snoc str_nat_nonempty last_str_nat)

lemma length_str_nat_ge2: "10 \<le> n \<Longrightarrow> 2 \<le> length (str_nat n)"
  using str_nat_nonempty [of "n div 10"]
  by (subst str_nat.simps) (cases "str_nat (n div 10)", simp_all)

lemma last_two_Cons:
  assumes "2 \<le> length xs"
  shows "last_two (c # xs) = last_two xs"
proof -
  have "length (c # xs) - 2 = Suc (length xs - 2)"
    using assms by simp
  then show ?thesis
    unfolding last_two_def by simp
qed

text \<open>The number of digits: at most \<open>k\<close> exactly for the numbers below \<open>10 ^ k\<close>.\<close>

lemma length_str_nat_le: "0 < k \<Longrightarrow> length (str_nat n) \<le> k \<longleftrightarrow> n < 10 ^ k"
proof (induction n arbitrary: k rule: str_nat.induct)
  case (1 n)
  show ?case
  proof (cases "n < 10")
    case True
    have "(10::nat) ^ 1 \<le> 10 ^ k"
      using 1(2) by (intro power_increasing) simp_all
    with True 1(2) show ?thesis
      by (subst str_nat.simps) simp
  next
    case False
    show ?thesis
    proof (cases k)
      case 0
      with 1(2) show ?thesis by simp
    next
      case (Suc j)
      show ?thesis
      proof (cases "j = 0")
        case True
        with False Suc show ?thesis
          by (subst str_nat.simps) (simp add: str_nat_nonempty Suc_le_eq)
      next
        case nz: False
        then have "length (str_nat (n div 10)) \<le> j \<longleftrightarrow> n div 10 < 10 ^ j"
          using 1(1) [OF False, of j] by simp
        moreover have "n div 10 < 10 ^ j \<longleftrightarrow> n < 10 ^ Suc j"
          by (simp add: div_less_iff_less_mult mult.commute)
        ultimately show ?thesis
          using False Suc by (subst str_nat.simps) simp
      qed
    qed
  qed
qed

lemma nat_abs_less_power: "nat \<bar>i\<bar> < 10 ^ k \<longleftrightarrow> \<bar>i\<bar> < 10 ^ k"
proof -
  have "nat \<bar>i\<bar> < 10 ^ k \<longleftrightarrow> int (nat \<bar>i\<bar>) < int (10 ^ k)"
    by (simp only: of_nat_less_iff)
  then show ?thesis by simp
qed

lemma int_max_str_digits_pos: "0 < int_max_str_digits"
  by (simp add: int_max_str_digits_def)

lemma str_int_Inr:
  "\<bar>i\<bar> < 10 ^ int_max_str_digits
   \<Longrightarrow> str_int i = Inr (if i < 0 then CHR ''-'' # str_nat (nat \<bar>i\<bar>) else str_nat (nat \<bar>i\<bar>))"
  using length_str_nat_le [OF int_max_str_digits_pos, of "nat \<bar>i\<bar>"]
  by (simp add: str_int_def Let_def nat_abs_less_power not_less)

lemma str_int_ValueError:
  "10 ^ int_max_str_digits \<le> \<bar>i\<bar> \<Longrightarrow> str_int i = Inl ValueError"
  using length_str_nat_le [OF int_max_str_digits_pos, of "nat \<bar>i\<bar>"]
  by (simp add: str_int_def Let_def nat_abs_less_power not_less)

lemma small_below_limit: "\<bar>i :: int\<bar> < 10000 \<Longrightarrow> \<bar>i\<bar> < 10 ^ int_max_str_digits"
proof -
  have "(10::int) ^ 4 \<le> 10 ^ int_max_str_digits"
    by (intro power_increasing) (simp_all add: int_max_str_digits_def)
  moreover assume "\<bar>i\<bar> < 10000"
  ultimately show ?thesis by simp
qed

lemma last_two_str_int:
  assumes "10 \<le> \<bar>i\<bar>" and "str_int i = Inr s"
  shows "last_two s = last_two_digits i"
proof -
  have "10 \<le> nat \<bar>i\<bar>" using assms(1) by simp
  then have "last_two (str_nat (nat \<bar>i\<bar>)) = last_two_digits i"
    and "2 \<le> length (str_nat (nat \<bar>i\<bar>))"
    by (simp_all add: last_two_str_nat last_two_digits_def length_str_nat_ge2)
  with assms(2) show ?thesis
    by (auto simp add: str_int_def Let_def last_two_Cons split: if_splits)
qed

section \<open>Facts about the two functions\<close>

text \<open>
  With a non-empty first name the only statement of \<open>generate_email\<close> that can raise is
  \<^verbatim>\<open>str(year)\<close>, evaluated for a sandwich student.
\<close>

lemma generate_email_cases:
  assumes "first \<noteq> []"
  shows "generate_email first middle last' dept year student_type =
     (if lower student_type = ''sandwich''
      then (case str_int year of
              Inl e \<Rightarrow> Inl e
            | Inr digits \<Rightarrow>
                Inr ([lower_char (hd first)]
                     @ (case middle of
                          None \<Rightarrow> []
                        | Some m \<Rightarrow> if (\<exists>c\<in>set m. \<not> isspace_char c)
                                    then [lower_char (hd m)] else [])
                     @ filter (\<lambda>c. c \<noteq> CHR '' '') (lower last')
                     @ (last_two digits @ ''sw'')
                     @ ''@'' @ lower dept @ ''.uhas.edu.gh''))
      else Inr ([lower_char (hd first)]
                @ (case middle of
                     None \<Rightarrow> []
                   | Some m \<Rightarrow> if (\<exists>c\<in>set m. \<not> isspace_char c)
                               then [lower_char (hd m)] else [])
                @ filter (\<lambda>c. c \<noteq> CHR '' '') (lower last')
                @ ''@'' @ lower dept @ ''.uhas.edu.gh''))"
proof (cases middle)
  case None
  with assms show ?thesis
    by (simp add: generate_email_def getitem0_Cons replace_char_empty lower_def Let_def
        split: sum.splits)
next
  case (Some m)
  show ?thesis
  proof (cases "\<exists>c\<in>set m. \<not> isspace_char c")
    case True
    then have "m \<noteq> []" by auto
    with True Some assms show ?thesis
      by (simp add: generate_email_def getitem0_Cons replace_char_empty strip_nonempty_iff
          lower_def Let_def split: sum.splits)
  next
    case False
    with Some assms show ?thesis
      by (simp add: generate_email_def getitem0_Cons replace_char_empty strip_nonempty_iff
          lower_def Let_def split: sum.splits)
  qed
qed

lemma generate_email_ValueError:
  assumes "first \<noteq> []" and "lower student_type = ''sandwich''"
    and "10 ^ int_max_str_digits \<le> \<bar>year\<bar>"
  shows "generate_email first middle last' dept year student_type = Inl ValueError"
  using assms(2) by (simp add: generate_email_cases [OF assms(1)] str_int_ValueError [OF assms(3)])

text \<open>
  Where \<^verbatim>\<open>str(programme)\<close> returns, the test of one item is the match of the department;
  where it raises, the test raises as soon as there is a keyword to try.
\<close>

lemma any_prog_in_Inr:
  "py_str programme = Inr s \<Longrightarrow> any_prog_in progs programme = Inr (department_matches progs s)"
  by (induction progs) (simp_all add: department_matches_def keyword_matches_def py_in_sublist)

lemma any_prog_in_Inl:
  "py_str programme = Inl e \<Longrightarrow> progs \<noteq> [] \<Longrightarrow> any_prog_in progs programme = Inl e"
  by (cases progs) simp_all

lemma department_matches_code:
  "department_matches progs s \<longleftrightarrow> any_prog_in progs (PyStr s) = Inr True"
  by (simp add: any_prog_in_Inr)

lemma department_has_keyword_code:
  "department_has_keyword progs s \<longleftrightarrow> any_prog_in progs (PyStr s) = Inr True"
  by (simp add: department_has_keyword_iff department_matches_code)

lemma get_school_no_match:
  "py_str programme = Inr s
   \<Longrightarrow> \<forall>(school, progs)\<in>set mapping. \<not> department_matches progs s
   \<Longrightarrow> get_school_from_programme programme mapping = Inr ''unknown''"
  by (induction mapping) (auto simp: any_prog_in_Inr)

lemma get_school_skip:
  "py_str programme = Inr s
   \<Longrightarrow> \<forall>(school, progs)\<in>set before. \<not> department_matches progs s
   \<Longrightarrow> get_school_from_programme programme (before @ rest)
       = get_school_from_programme programme rest"
  by (induction before) (auto simp: any_prog_in_Inr)


section \<open>The format of the email\<close>

text \<open>
  C1, as amended. For a non-empty first name, and for a sandwich student an admission
  year of at least two and at most 4300 decimal digits, \<open>generate_email\<close> returns f, m,
  lastname and suffix, then \<^verbatim>\<open>@\<close>, the department and \<^verbatim>\<open>.uhas.edu.gh\<close>, where f is the
  first character of the first name in lower case; m is the first character of the
  middle name in lower case when the middle name is present and has a character that is
  not whitespace, and empty otherwise; lastname is the last name in lower case without
  its spaces; suffix is the last two digits of the admission year followed by \<^verbatim>\<open>sw\<close>
  when the student type equals \<^verbatim>\<open>Sandwich\<close> up to case, and empty otherwise; the
  department is in lower case.
\<close>

theorem generate_email_format:
  assumes "first \<noteq> []"
    and "lower student_type = lower ''Sandwich''
           \<longrightarrow> 10 \<le> \<bar>year\<bar> \<and> \<bar>year\<bar> < 10 ^ int_max_str_digits"
  shows "generate_email first middle last' dept year student_type =
     Inr ([lower_char (hd first)]
          @ (case middle of
               None \<Rightarrow> []
             | Some m \<Rightarrow> if (\<exists>c\<in>set m. \<not> isspace_char c) then [lower_char (hd m)] else [])
          @ filter (\<lambda>c. c \<noteq> CHR '' '') (lower last')
          @ (if lower student_type = lower ''Sandwich''
             then last_two_digits year @ ''sw'' else [])
          @ ''@'' @ lower dept @ ''.uhas.edu.gh'')"
proof (cases "lower student_type = ''sandwich''")
  case True
  with assms(2) have big: "10 \<le> \<bar>year\<bar>" and small: "\<bar>year\<bar> < 10 ^ int_max_str_digits"
    by (simp_all add: lower_sandwich)
  from small obtain digits where digits: "str_int year = Inr digits"
    by (simp add: str_int_Inr)
  with big have "last_two digits = last_two_digits year"
    by (rule last_two_str_int)
  with True digits show ?thesis
    by (simp add: generate_email_cases [OF assms(1)] lower_sandwich)
next
  case False
  then show ?thesis
    by (simp add: generate_email_cases [OF assms(1)] lower_sandwich)
qed

text \<open>
  The format at a middle name of one space, a last name with a space, an upper-case
  department and an upper-case student type.
\<close>

theorem generate_email_format_witness:
  "generate_email ''Kwame'' (Some '' '') ''Osei Tutu'' ''SPH'' 2025 ''SANDWICH''
     = Inr ''koseitutu25sw@sph.uhas.edu.gh''"
proof -
  have ne: "''Kwame'' \<noteq> []" by simp
  have year: "lower ''SANDWICH'' = lower ''Sandwich''
                \<longrightarrow> 10 \<le> \<bar>2025 :: int\<bar> \<and> \<bar>2025 :: int\<bar> < 10 ^ int_max_str_digits"
    using small_below_limit [of 2025] by simp
  have rhs: "[lower_char (hd ''Kwame'')]
          @ (case Some '' '' of
               None \<Rightarrow> []
             | Some m \<Rightarrow> if (\<exists>c\<in>set m. \<not> isspace_char c) then [lower_char (hd m)] else [])
          @ filter (\<lambda>c. c \<noteq> CHR '' '') (lower ''Osei Tutu'')
          @ (if lower ''SANDWICH'' = lower ''Sandwich''
             then last_two_digits 2025 @ ''sw'' else [])
          @ ''@'' @ lower ''SPH'' @ ''.uhas.edu.gh'' = ''koseitutu25sw@sph.uhas.edu.gh''"
    by code_simp
  from generate_email_format [OF ne year, of "Some '' ''" "''Osei Tutu''" "''SPH''"]
  show ?thesis unfolding rhs .
qed

text \<open>
  C1 as the specification words it fails at three inputs. A middle name that is one
  space is present and non-empty, so the wording puts a space into the address, while
  the code tests \<^verbatim>\<open>middle.strip()\<close> and takes no middle initial. The year 5 has one
  digit, and the code's suffix is \<^verbatim>\<open>5sw\<close>, not two digits and \<^verbatim>\<open>sw\<close>. And for a year of
  4301 digits \<^verbatim>\<open>str(year)\<close> raises, so no address is returned.
\<close>

theorem generate_email_format_counterexample:
  "generate_email ''John'' (Some '' '') ''Doe'' ''sonam'' 2024 ''Regular''
       = Inr ''jdoe@sonam.uhas.edu.gh''
   \<and> email_format_spec ''John'' (Some '' '') ''Doe'' ''sonam'' 2024 ''Regular''
       = ''j doe@sonam.uhas.edu.gh''
   \<and> generate_email ''John'' (Some '''') ''Doe'' ''sonam'' 5 ''Sandwich''
       = Inr ''jdoe5sw@sonam.uhas.edu.gh''
   \<and> email_format_spec ''John'' (Some '''') ''Doe'' ''sonam'' 5 ''Sandwich''
       = ''jdoe05sw@sonam.uhas.edu.gh''
   \<and> generate_email ''John'' (Some '''') ''Doe'' ''sonam'' (10 ^ int_max_str_digits) ''Sandwich''
       = Inl ValueError"
proof -
  have a: "generate_email ''John'' (Some '' '') ''Doe'' ''sonam'' 2024 ''Regular''
             = Inr ''jdoe@sonam.uhas.edu.gh''"
    by code_simp
  have b: "email_format_spec ''John'' (Some '' '') ''Doe'' ''sonam'' 2024 ''Regular''
             = ''j doe@sonam.uhas.edu.gh''"
    by code_simp
  have c: "generate_email ''John'' (Some '''') ''Doe'' ''sonam'' 5 ''Sandwich''
             = Inr ''jdoe5sw@sonam.uhas.edu.gh''"
    by code_simp
  have d: "email_format_spec ''John'' (Some '''') ''Doe'' ''sonam'' 5 ''Sandwich''
             = ''jdoe05sw@sonam.uhas.edu.gh''"
    by code_simp
  have e: "generate_email ''John'' (Some '''') ''Doe'' ''sonam'' (10 ^ int_max_str_digits)
             ''Sandwich'' = Inl ValueError"
    by (rule generate_email_ValueError) (simp_all add: lower_sandwich)
  from a b c d e show ?thesis by (intro conjI)
qed

section \<open>The first matching department\<close>

text \<open>
  C2. When no department of the mapping has a keyword that occurs in the programme up
  to case, \<open>get_school_from_programme\<close> returns \<^verbatim>\<open>unknown\<close>. When the mapping is
  \<open>before\<close>, then the entry of \<open>school\<close>, then \<open>after\<close>, no department of \<open>before\<close> has such
  a keyword and \<open>school\<close> has one, it returns \<open>school\<close>, whatever \<open>after\<close> holds: the first
  matching department in the order of insertion wins.
\<close>

theorem get_school_first_match:
  "((\<forall>(s, ps)\<in>set mapping. \<not> department_has_keyword ps programme)
      \<longrightarrow> get_school_from_programme (PyStr programme) mapping = Inr ''unknown'')
   \<and> (mapping = before @ (school, progs) # after
        \<and> (\<forall>(s, ps)\<in>set before. \<not> department_has_keyword ps programme)
        \<and> department_has_keyword progs programme
      \<longrightarrow> get_school_from_programme (PyStr programme) mapping = Inr school)"
proof -
  have str: "py_str (PyStr programme) = Inr programme" by simp
  show ?thesis
    unfolding department_has_keyword_iff
    by (auto simp: get_school_no_match [OF str] get_school_skip [OF str] any_prog_in_Inr)
qed

text \<open>
  With the default mapping and programmes whose case differs from the keywords':
  \<^verbatim>\<open>public HEALTH nursing\<close> has keywords of \<^verbatim>\<open>sonam\<close> and of \<^verbatim>\<open>sph\<close> and is classified as
  \<^verbatim>\<open>sonam\<close>, the earlier key; \<^verbatim>\<open>MPH public HEALTH\<close> has no keyword of \<^verbatim>\<open>sonam\<close> and is
  classified as \<^verbatim>\<open>sph\<close>; \<^verbatim>\<open>marine BIOLOGY\<close> has no keyword of any department.
\<close>

theorem get_school_first_match_witness:
  "department_has_keyword [''Public Health'', ''Health Promotion'', ''Disease Control'',
                           ''Environmental Health'', ''Nutrition''] ''public HEALTH nursing''
   \<and> get_school_from_programme (PyStr ''public HEALTH nursing'') school_mapping_default
       = Inr ''sonam''
   \<and> get_school_from_programme (PyStr ''MPH public HEALTH'') school_mapping_default
       = Inr ''sph''
   \<and> get_school_from_programme (PyStr ''marine BIOLOGY'') school_mapping_default
       = Inr ''unknown''"
proof -
  let ?sonam = "[''Nursing'', ''Midwifery'', ''Public Health Nursing'', ''Master of Philosophy'']"
  let ?sph = "[''Public Health'', ''Health Promotion'', ''Disease Control'',
               ''Environmental Health'', ''Nutrition'']"
  let ?sahs = "[''Dietetics'', ''Medical Laboratory Sciences'', ''Orthotics and Prosthetics'',
                ''Physiotherapy'']"
  have m1: "department_has_keyword ?sonam ''public HEALTH nursing''"
    unfolding department_has_keyword_code by code_simp
  have m2: "department_has_keyword ?sph ''public HEALTH nursing''"
    unfolding department_has_keyword_code by code_simp
  have p1: "\<not> department_has_keyword ?sonam ''MPH public HEALTH''"
    unfolding department_has_keyword_code by code_simp
  have p2: "department_has_keyword ?sph ''MPH public HEALTH''"
    unfolding department_has_keyword_code by code_simp
  have n1: "\<not> department_has_keyword ?sonam ''marine BIOLOGY''"
    unfolding department_has_keyword_code by code_simp
  have n2: "\<not> department_has_keyword ?sph ''marine BIOLOGY''"
    unfolding department_has_keyword_code by code_simp
  have n3: "\<not> department_has_keyword ?sahs ''marine BIOLOGY''"
    unfolding department_has_keyword_code by code_simp
  have parts1: "school_mapping_default
                 = [] @ (''sonam'', ?sonam) # [(''sph'', ?sph), (''sahs'', ?sahs)]"
    by (simp add: school_mapping_default_def)
  have parts2: "school_mapping_default
                 = [(''sonam'', ?sonam)] @ (''sph'', ?sph) # [(''sahs'', ?sahs)]"
    by (simp add: school_mapping_default_def)
  have both: "get_school_from_programme (PyStr ''public HEALTH nursing'')
                school_mapping_default = Inr ''sonam''"
    using get_school_first_match [of school_mapping_default "''public HEALTH nursing''"
        "[]" "''sonam''" ?sonam "[(''sph'', ?sph), (''sahs'', ?sahs)]"] parts1 m1
    by simp
  have second: "get_school_from_programme (PyStr ''MPH public HEALTH'')
                  school_mapping_default = Inr ''sph''"
    using get_school_first_match [of school_mapping_default "''MPH public HEALTH''"
        "[(''sonam'', ?sonam)]" "''sph''" ?sph "[(''sahs'', ?sahs)]"] parts2 p1 p2
    by simp
  have unmatched: "get_school_from_programme (PyStr ''marine BIOLOGY'') school_mapping_default
                     = Inr ''unknown''"
    using get_school_first_match [of school_mapping_default "''marine BIOLOGY''"
        "[]" "''sonam''" ?sonam "[(''sph'', ?sph), (''sahs'', ?sahs)]"] n1 n2 n3
    by (simp add: school_mapping_default_def)
  from m2 both second unmatched show ?thesis by (intro conjI)
qed

section \<open>The empty first name\<close>

text \<open>
  C3. With an empty first name \<open>generate_email\<close> fails, whatever the other arguments
  are: \<^verbatim>\<open>first[0]\<close> raises before anything else is evaluated. The error the
  specification calls InputError is the \<^verbatim>\<open>IndexError\<close> of that subscript.
\<close>

theorem generate_email_empty_first:
  "generate_email [] middle last' dept year student_type = Inl IndexError"
  by (simp add: generate_email_def getitem0_Nil)

section \<open>Classifying after a school is added\<close>

text \<open>
  C4, as amended. For a non-empty school code that is no key of the mapping yet and a
  non-empty keyword, after the \<^verbatim>\<open>Add New School\<close> handler has run, a programme string
  that contains the keyword as a case-insensitive substring is classified as the new
  school, provided that no department that was already in the mapping has a keyword
  that is a case-insensitive substring of the programme.
\<close>

theorem add_new_school_then_classify:
  assumes "new_school \<noteq> []" and "keyword \<noteq> []"
    and "new_school \<notin> set (map fst (school_mapping st))"
    and "keyword_matches keyword programme"
    and "\<forall>(s, ps)\<in>set (school_mapping st). \<not> department_matches ps programme"
  shows "get_school_from_programme (PyStr programme)
           (school_mapping (snd (add_new_school new_school keyword st))) = Inr new_school"
proof -
  have str: "py_str (PyStr programme) = Inr programme" by simp
  have "school_mapping (snd (add_new_school new_school keyword st))
          = school_mapping st @ [(new_school, [keyword])]"
    using assms(1-3) by (simp add: add_new_school_def)
  moreover have "department_matches [keyword] programme"
    using assms(4) by (simp add: department_matches_def)
  then have "get_school_from_programme (PyStr programme) [(new_school, [keyword])]
               = Inr new_school"
    by (simp add: any_prog_in_Inr [OF str] del: any_prog_in.simps)
  ultimately show ?thesis
    using assms(5) by (simp add: get_school_skip [OF str] del: get_school_from_programme.simps)
qed

text \<open>
  The school \<^verbatim>\<open>sop\<close> with the keyword \<^verbatim>\<open>Pharmacy\<close>, added to the default mapping:
  \<^verbatim>\<open>Doctor of PHARMACY\<close> matches no default department and is classified as \<^verbatim>\<open>sop\<close>.
\<close>

theorem add_new_school_then_classify_witness:
  "get_school_from_programme (PyStr ''Doctor of PHARMACY'')
     (school_mapping (snd (add_new_school ''sop'' ''Pharmacy''
        \<lparr>school_mapping = school_mapping_default\<rparr>))) = Inr ''sop''"
proof -
  let ?st = "\<lparr>school_mapping = school_mapping_default\<rparr>"
  have a: "''sop'' \<noteq> []" "''Pharmacy'' \<noteq> []" by simp_all
  have b: "''sop'' \<notin> set (map fst (school_mapping ?st))"
    by (simp add: school_mapping_default_def)
  have c: "keyword_matches ''Pharmacy'' ''Doctor of PHARMACY''"
    unfolding keyword_matches_def py_in_sublist [symmetric] by code_simp
  have d: "\<forall>(s, ps)\<in>set (school_mapping ?st). \<not> department_matches ps ''Doctor of PHARMACY''"
    unfolding department_matches_code by code_simp
  from add_new_school_then_classify [OF a b c d] show ?thesis .
qed

text \<open>
  C4 as the specification words it fails in two ways. The new school is the last key,
  so a programme that also matches an earlier department keeps that department:
  \<^verbatim>\<open>BSc Pharmacy and Nutrition\<close> contains \<^verbatim>\<open>Pharmacy\<close> and is still \<^verbatim>\<open>sph\<close>. And the
  handler stores nothing for an empty keyword, which every programme contains.
\<close>

theorem add_new_school_then_classify_counterexample:
  "''sop'' \<notin> set (map fst school_mapping_default)
   \<and> keyword_matches ''Pharmacy'' ''BSc Pharmacy and Nutrition''
   \<and> get_school_from_programme (PyStr ''BSc Pharmacy and Nutrition'')
        (school_mapping (snd (add_new_school ''sop'' ''Pharmacy''
           \<lparr>school_mapping = school_mapping_default\<rparr>))) = Inr ''sph''
   \<and> keyword_matches [] ''Pharmacy''
   \<and> get_school_from_programme (PyStr ''Pharmacy'')
        (school_mapping (snd (add_new_school ''sop'' []
           \<lparr>school_mapping = school_mapping_default\<rparr>))) = Inr ''unknown''"
  unfolding keyword_matches_def py_in_sublist [symmetric] by code_simp

section \<open>The examples of the specification\<close>

text \<open>
  C5. \<^verbatim>\<open>generate_email("John", "", "Doe", "sonam", 2024, "Regular")\<close> is
  \<^verbatim>\<open>jdoe@sonam.uhas.edu.gh\<close>, and
  \<^verbatim>\<open>generate_email("Ama", "Kofi", "Mensah", "sph", 2025, "Sandwich")\<close> is
  \<^verbatim>\<open>akmensah25sw@sph.uhas.edu.gh\<close>.
\<close>

theorem generate_email_examples:
  "generate_email ''John'' (Some '''') ''Doe'' ''sonam'' 2024 ''Regular''
     = Inr ''jdoe@sonam.uhas.edu.gh'' \<and>
   generate_email ''Ama'' (Some ''Kofi'') ''Mensah'' ''sph'' 2025 ''Sandwich''
     = Inr ''akmensah25sw@sph.uhas.edu.gh''"
  by code_simp

text \<open>
  C6. With the default mapping \<^verbatim>\<open>BSc Nursing\<close> is classified as \<^verbatim>\<open>sonam\<close> and
  \<^verbatim>\<open>Underwater Basket Weaving\<close> as \<^verbatim>\<open>unknown\<close>.
\<close>

theorem classify_default_examples:
  "get_school_from_programme (PyStr ''BSc Nursing'') school_mapping_default = Inr ''sonam'' \<and>
   get_school_from_programme (PyStr ''Underwater Basket Weaving'') school_mapping_default
     = Inr ''unknown''"
  by code_simp

section \<open>Regular students without a middle name\<close>

text \<open>
  C7. For a non-empty first name and a non-empty last name, with an empty middle name
  and the student type \<^verbatim>\<open>Regular\<close>, the address has nothing between the name and the
  \<^verbatim>\<open>@\<close>: it is the first letter of the first name in lower case, the last name in lower
  case without its spaces, then \<^verbatim>\<open>@\<close>, the department in lower case and the domain.
\<close>

theorem generate_email_regular_no_suffix:
  assumes "first \<noteq> []" and "last' \<noteq> []"
  shows "generate_email first (Some []) last' dept year ''Regular'' =
     Inr (lower_char (hd first) # filter (\<lambda>c. c \<noteq> CHR '' '') (lower last')
          @ ''@'' @ lower dept @ ''.uhas.edu.gh'')"
  by (simp add: generate_email_cases [OF assms(1)] lower_regular)

text \<open>A last name of two words and an upper-case department.\<close>

theorem generate_email_regular_no_suffix_witness:
  "generate_email ''Kofi'' (Some []) ''Adu Boahen'' ''SAHS'' 2024 ''Regular''
     = Inr ''kaduboahen@sahs.uhas.edu.gh''"
proof -
  have rhs: "lower_char (hd ''Kofi'') # filter (\<lambda>c. c \<noteq> CHR '' '') (lower ''Adu Boahen'')
          @ ''@'' @ lower ''SAHS'' @ ''.uhas.edu.gh'' = ''kaduboahen@sahs.uhas.edu.gh''"
    by code_simp
  have "''Kofi'' \<noteq> []" and "''Adu Boahen'' \<noteq> []" by simp_all
  from generate_email_regular_no_suffix [OF this, of "''SAHS''" 2024]
  show ?thesis unfolding rhs .
qed

section \<open>Determinism of the classifier\<close>



section \<open>Safety of the classifier\<close>

text \<open>
  C9, as amended. For every programme value on which \<^verbatim>\<open>str\<close> returns (every string,
  \<^verbatim>\<open>None\<close>, \<^verbatim>\<open>nan\<close>, every boolean, every integer of at most 4300 decimal digits and every
  other object whose \<^verbatim>\<open>str\<close> returns) and every mapping, \<open>get_school_from_programme\<close>
  returns, and what it returns is a key of the mapping or \<^verbatim>\<open>unknown\<close>.
\<close>

theorem get_school_key_or_unknown:
  assumes "py_str programme = Inr s"
  shows "\<exists>school. get_school_from_programme programme mapping = Inr school
           \<and> school \<in> set (map fst mapping) \<union> {''unknown''}"
proof (induction mapping)
  case Nil
  show ?case by simp
next
  case (Cons entry rest)
  obtain school progs where entry: "entry = (school, progs)"
    by (cases entry)
  show ?case
  proof (cases "department_matches progs s")
    case True
    with entry show ?thesis
      by (simp add: any_prog_in_Inr [OF assms])
  next
    case False
    with entry Cons show ?thesis
      by (auto simp add: any_prog_in_Inr [OF assms])
  qed
qed

text \<open>
  The missing-value float is read as \<^verbatim>\<open>nan\<close>, which contains the keyword \<^verbatim>\<open>NaN\<close> up to
  case.
\<close>

theorem get_school_key_or_unknown_witness:
  "py_str PyNaN = Inr ''nan''
   \<and> (\<exists>school. get_school_from_programme PyNaN [(''misc'', [''NaN''])] = Inr school
         \<and> school \<in> set (map fst [(''misc'', [''NaN''])]) \<union> {''unknown''})
   \<and> get_school_from_programme PyNaN [(''misc'', [''NaN''])] = Inr ''misc''"
proof -
  have str: "py_str PyNaN = Inr ''nan''" by simp
  have val: "get_school_from_programme PyNaN [(''misc'', [''NaN''])] = Inr ''misc''"
    by code_simp
  from str get_school_key_or_unknown [OF str, of "[(''misc'', [''NaN''])]"] val
  show ?thesis by (intro conjI)
qed

text \<open>
  C9 as stated fails at an integer of 4301 digits: \<^verbatim>\<open>str(programme)\<close> raises at the
  first keyword tried, and the call raises with it.
\<close>

theorem get_school_key_or_unknown_counterexample:
  "get_school_from_programme (PyInt (10 ^ int_max_str_digits)) school_mapping_default
     = Inl ValueError"
proof -
  have "py_str (PyInt (10 ^ int_max_str_digits)) = Inl ValueError"
    by (simp add: str_int_ValueError)
  then show ?thesis
    by (simp add: school_mapping_default_def any_prog_in_Inl)
qed

section \<open>The address is in lower case\<close>

text \<open>
  C10. Whenever \<open>generate_email\<close> returns an address, the address is its own lower-case
  form, whatever the case of the arguments.
\<close>

theorem generate_email_lowercase:
  assumes "generate_email first middle last' dept year student_type = Inr email"
  shows "lower email = email"
proof -
  have ne: "first \<noteq> []"
    using assms by (auto simp add: generate_email_def getitem0_Nil)
  have mid: "lower (case middle of
               None \<Rightarrow> []
             | Some m \<Rightarrow> if (\<exists>c\<in>set m. \<not> isspace_char c) then [lower_char (hd m)] else [])
        = (case middle of
               None \<Rightarrow> []
             | Some m \<Rightarrow> if (\<exists>c\<in>set m. \<not> isspace_char c) then [lower_char (hd m)] else [])"
    by (cases middle) (simp_all add: lower_def lower_char_idem)
  show ?thesis
  proof (cases "lower student_type = ''sandwich''")
    case True
    with assms obtain digits where digits: "str_int year = Inr digits"
      and email: "email = [lower_char (hd first)]
                     @ (case middle of
                          None \<Rightarrow> []
                        | Some m \<Rightarrow> if (\<exists>c\<in>set m. \<not> isspace_char c)
                                    then [lower_char (hd m)] else [])
                     @ filter (\<lambda>c. c \<noteq> CHR '' '') (lower last')
                     @ (last_two digits @ ''sw'')
                     @ ''@'' @ lower dept @ ''.uhas.edu.gh''"
      by (auto simp add: generate_email_cases [OF ne] split: sum.splits)
    have "lower (last_two digits) = last_two digits"
      using digits by (intro lower_last_two lower_str_int)
    then show ?thesis
      unfolding email
      by (simp add: lower_append lower_singleton lower_filter_lower lower_idem lower_literals
          lower_Nil mid del: append_Cons append_Nil)
  next
    case False
    with assms have email: "email = [lower_char (hd first)]
                     @ (case middle of
                          None \<Rightarrow> []
                        | Some m \<Rightarrow> if (\<exists>c\<in>set m. \<not> isspace_char c)
                                    then [lower_char (hd m)] else [])
                     @ filter (\<lambda>c. c \<noteq> CHR '' '') (lower last')
                     @ ''@'' @ lower dept @ ''.uhas.edu.gh''"
      by (auto simp add: generate_email_cases [OF ne])
    show ?thesis
      unfolding email
      by (simp add: lower_append lower_singleton lower_filter_lower lower_idem lower_literals
          lower_Nil mid del: append_Cons append_Nil)
  qed
qed

text \<open>Mixed case in every argument.\<close>

theorem generate_email_lowercase_witness:
  "generate_email ''ESI'' (Some ''Abla'') ''DE Souza'' ''SoNaM'' 2024 ''sandWICH''
     = Inr ''eadesouza24sw@sonam.uhas.edu.gh''
   \<and> lower ''eadesouza24sw@sonam.uhas.edu.gh'' = ''eadesouza24sw@sonam.uhas.edu.gh''"
proof -
  have val: "generate_email ''ESI'' (Some ''Abla'') ''DE Souza'' ''SoNaM'' 2024 ''sandWICH''
               = Inr ''eadesouza24sw@sonam.uhas.edu.gh''"
    by code_simp
  from val generate_email_lowercase [OF val] show ?thesis by (intro conjI)
qed

end
